theory Spec2Isabelle
  imports Main
begin

section \<open>JavaScript values used by the opening-hours utilities\<close>

subsection \<open>Strings\<close>

text \<open>
  A JavaScript string is a sequence of UTF-16 code units; \<open>length\<close>, \<open>split\<close>,
  \<open>trim\<close> and \<open>padStart\<close> all work on code units. A code unit is modelled by its
  number. \<open>lit\<close> turns an ASCII literal into its code units.
\<close>

type_synonym jsstring = "nat list"

definition lit :: "string \<Rightarrow> jsstring" where
  "lit s = map of_char s"

text \<open>
  \<open>String.prototype.trim\<close> removes WhiteSpace and LineTerminator code units from both
  ends: TAB, LF, VT, FF, CR, SP, NBSP, U+1680, U+2000 to U+200A, U+2028, U+2029,
  U+202F, U+205F, U+3000 and U+FEFF.
\<close>

definition isWhiteSpace :: "nat \<Rightarrow> bool" where
  "isWhiteSpace c \<longleftrightarrow>
     (9 \<le> c \<and> c \<le> 13) \<or> c = 32 \<or> c = 160 \<or> c = 5760 \<or> (8192 \<le> c \<and> c \<le> 8202) \<or>
     c = 8232 \<or> c = 8233 \<or> c = 8239 \<or> c = 8287 \<or> c = 12288 \<or> c = 65279"

definition trim :: "jsstring \<Rightarrow> jsstring" where
  "trim s = rev (dropWhile isWhiteSpace (rev (dropWhile isWhiteSpace s)))"

text \<open>
  \<open>s.split(sep)\<close> with a string separator and no limit. The pieces between the
  occurrences of \<open>sep\<close>, found from left to right, are returned in order; a string
  without the separator comes back whole, as the only piece. An empty separator
  splits into single code units.
\<close>

function splitFrom :: "jsstring \<Rightarrow> jsstring \<Rightarrow> jsstring \<Rightarrow> jsstring list" where
  "splitFrom sep piece [] = [rev piece]"
| "splitFrom sep piece (c # cs) =
     (if sep \<noteq> [] \<and> take (length sep) (c # cs) = sep
      then rev piece # splitFrom sep [] (drop (length sep) (c # cs))
      else splitFrom sep (c # piece) cs)"
  by pat_completeness auto
termination
  by (relation "measure (\<lambda>(sep, piece, s). length s)") auto

definition split :: "jsstring \<Rightarrow> jsstring \<Rightarrow> jsstring list" where
  "split sep s = (if sep = [] then map (\<lambda>c. [c]) s else splitFrom sep [] s)"

text \<open>
  Array destructuring \<open>const [a, b] = xs\<close> reads index 0 and index 1; an index past
  the end gives \<open>undefined\<close>, here \<open>None\<close>.
\<close>

fun element :: "'a list \<Rightarrow> nat \<Rightarrow> 'a option" where
  "element [] i = None"
| "element (x # xs) 0 = Some x"
| "element (x # xs) (Suc i) = element xs i"

text \<open>\<open>s.padStart(n, pad)\<close>: \<open>pad\<close> is repeated and cut to fill up to length \<open>n\<close> on the left.\<close>

definition padStart :: "nat \<Rightarrow> jsstring \<Rightarrow> jsstring \<Rightarrow> jsstring" where
  "padStart n pad s =
     (if n \<le> length s \<or> pad = [] then s
      else take (n - length s) (concat (replicate (n - length s) pad)) @ s)"

subsection \<open>Numbers\<close>

text \<open>
  A JavaScript number is an IEEE double. The functions below only ever compare, add,
  subtract, multiply by 60, floor-divide by 60 and take the remainder by 60. On
  integers of magnitude at most \<open>2^53\<close> these operations are exact whenever the result
  stays in that range, so a number is modelled as such an integer or \<open>NaN\<close> (negative
  zero prints and compares as zero and is identified with it). A value outside this
  range of the model (a fraction, an infinity, an integer beyond \<open>2^53\<close>) is not
  represented: the conversions that could produce one return \<open>None\<close>, which says that
  the model does not cover the input, not that the program fails.
\<close>

datatype jsnum = IntVal int | NaN

definition exact :: "int \<Rightarrow> jsnum option" where
  "exact v = (if \<bar>v\<bar> \<le> 2 ^ 53 then Some (IntVal v) else None)"

fun num_lt :: "jsnum \<Rightarrow> jsnum \<Rightarrow> bool" where
  "num_lt (IntVal a) (IntVal b) = (a < b)"
| "num_lt _ _ = False"

fun num_le :: "jsnum \<Rightarrow> jsnum \<Rightarrow> bool" where
  "num_le (IntVal a) (IntVal b) = (a \<le> b)"
| "num_le _ _ = False"

fun num_ge :: "jsnum \<Rightarrow> jsnum \<Rightarrow> bool" where
  "num_ge (IntVal a) (IntVal b) = (a \<ge> b)"
| "num_ge _ _ = False"

fun num_add :: "jsnum \<Rightarrow> jsnum \<Rightarrow> jsnum" where
  "num_add (IntVal a) (IntVal b) = IntVal (a + b)"
| "num_add _ _ = NaN"

fun num_sub :: "jsnum \<Rightarrow> jsnum \<Rightarrow> jsnum" where
  "num_sub (IntVal a) (IntVal b) = IntVal (a - b)"
| "num_sub _ _ = NaN"

text \<open>\<open>Math.floor(x / 60)\<close> and \<open>x % 60\<close>; the remainder takes the sign of \<open>x\<close>.\<close>

fun floorDiv60 :: "jsnum \<Rightarrow> jsnum" where
  "floorDiv60 (IntVal a) = IntVal (a div 60)"
| "floorDiv60 NaN = NaN"

fun rem60 :: "jsnum \<Rightarrow> jsnum" where
  "rem60 (IntVal a) = IntVal (sgn a * (\<bar>a\<bar> mod 60))"
| "rem60 NaN = NaN"

text \<open>\<open>Number.prototype.toString\<close> in base ten.\<close>

function natToString :: "nat \<Rightarrow> jsstring" where
  "natToString n = (if n < 10 then [48 + n] else natToString (n div 10) @ [48 + n mod 10])"
  by pat_completeness auto
termination
  by (relation "measure (\<lambda>n. n)") auto

declare natToString.simps [simp del]

fun toString :: "jsnum \<Rightarrow> jsstring" where
  "toString (IntVal a) = (if a < 0 then 45 # natToString (nat (- a)) else natToString (nat a))"
| "toString NaN = lit ''NaN''"

text \<open>
  \<open>Number(s)\<close> on a string: white space is trimmed, the empty string is 0, a
  StrNumericLiteral has its value and anything else is \<open>NaN\<close>. Of the numeric
  literals the model evaluates the signed decimal integers; the other forms (a
  fraction or exponent, \<open>Infinity\<close>, a binary, octal or hexadecimal literal) are
  recognised and answered with \<open>None\<close>.
\<close>

definition isDigit :: "nat \<Rightarrow> bool" where
  "isDigit c \<longleftrightarrow> 48 \<le> c \<and> c \<le> 57"

definition digitsValue :: "jsstring \<Rightarrow> nat" where
  "digitsValue ds = foldl (\<lambda>a c. a * 10 + (c - 48)) 0 ds"

definition isDigits :: "jsstring \<Rightarrow> bool" where
  "isDigits ds \<longleftrightarrow> ds \<noteq> [] \<and> list_all isDigit ds"

fun unsignedPart :: "jsstring \<Rightarrow> jsstring" where
  "unsignedPart [] = []"
| "unsignedPart (c # cs) = (if c = 43 \<or> c = 45 then cs else c # cs)"

definition isExponentPart :: "jsstring \<Rightarrow> bool" where
  "isExponentPart r =
     (case r of [] \<Rightarrow> False | c # e \<Rightarrow> (c = 101 \<or> c = 69) \<and> isDigits (unsignedPart e))"

definition isUnsignedDecimalLiteral :: "jsstring \<Rightarrow> bool" where
  "isUnsignedDecimalLiteral u =
     (u = lit ''Infinity'' \<or>
      (let ip = takeWhile isDigit u;
           r1 = dropWhile isDigit u;
           hasDot = (case r1 of [] \<Rightarrow> False | c # _ \<Rightarrow> c = 46);
           fp = (if hasDot then takeWhile isDigit (tl r1) else []);
           r2 = (if hasDot then dropWhile isDigit (tl r1) else r1)
       in (ip \<noteq> [] \<or> fp \<noteq> []) \<and> (r2 = [] \<or> isExponentPart r2)))"

definition isNonDecimalLiteral :: "jsstring \<Rightarrow> bool" where
  "isNonDecimalLiteral t =
     (case t of
        a # b # ds \<Rightarrow>
          a = 48 \<and> ds \<noteq> [] \<and>
          (((b = 98 \<or> b = 66) \<and> list_all (\<lambda>c. c = 48 \<or> c = 49) ds) \<or>
           ((b = 111 \<or> b = 79) \<and> list_all (\<lambda>c. 48 \<le> c \<and> c \<le> 55) ds) \<or>
           ((b = 120 \<or> b = 88) \<and>
              list_all (\<lambda>c. isDigit c \<or> (97 \<le> c \<and> c \<le> 102) \<or> (65 \<le> c \<and> c \<le> 70)) ds))
      | _ \<Rightarrow> False)"

definition Number :: "jsstring \<Rightarrow> jsnum option" where
  "Number s =
     (let t = trim s in
      if t = [] then Some (IntVal 0)
      else if isDigits (unsignedPart t) then
        exact (if hd t = 45 then - int (digitsValue (unsignedPart t))
               else int (digitsValue (unsignedPart t)))
      else if isUnsignedDecimalLiteral (unsignedPart t) \<or> isNonDecimalLiteral t then None
      else Some NaN)"

text \<open>
  \<open>checked\<close> passes a result on when the double holding it is the exact value.
\<close>

fun checked :: "jsnum \<Rightarrow> jsnum option" where
  "checked (IntVal a) = exact a"
| "checked NaN = Some NaN"

fun num_mul :: "jsnum \<Rightarrow> jsnum \<Rightarrow> jsnum" where
  "num_mul (IntVal a) (IntVal b) = IntVal (a * b)"
| "num_mul _ _ = NaN"

text \<open>An operand that is \<open>undefined\<close> converts to \<open>NaN\<close>.\<close>

fun operand :: "jsnum option option \<Rightarrow> jsnum option" where
  "operand None = Some NaN"
| "operand (Some r) = r"

section \<open>The opening-hours utilities\<close>

datatype error = TypeError

record RestaurantHours =
  "open" :: "jsstring option"
  close :: "jsstring option"

record OpeningStatus =
  isOpen :: bool
  status :: jsstring
  message :: jsstring
  nextOpenTime :: "jsstring option"
  timeUntilClose :: "jsstring option"

text \<open>
  \<open>parseRestaurantHours\<close>: the first two pieces of the split, trimmed. A missing
  piece is \<open>undefined\<close>.
\<close>

definition parseRestaurantHours :: "jsstring \<Rightarrow> RestaurantHours" where
  "parseRestaurantHours hoursString =
     (let pieces = map trim (split (lit '' - '') hoursString)
      in \<lparr>open = element pieces 0, close = element pieces 1\<rparr>)"

text \<open>\<open>timeToMinutes\<close>: \<open>hours * 60 + minutes\<close> of the first two pieces between colons.\<close>

definition timeToMinutes :: "jsstring \<Rightarrow> jsnum option" where
  "timeToMinutes timeString =
     (let parts = map Number (split (lit '':'') timeString)
      in Option.bind (operand (element parts 0)) (\<lambda>hours.
         Option.bind (operand (element parts 1)) (\<lambda>minutes.
         Option.bind (checked (num_mul hours (IntVal 60))) (\<lambda>product.
         checked (num_add product minutes)))))"

definition minutesToTime :: "jsnum \<Rightarrow> jsstring" where
  "minutesToTime minutes =
     (let hours = floorDiv60 minutes;
          mins = rem60 minutes
      in padStart 2 (lit ''0'') (toString hours) @ lit '':'' @ padStart 2 (lit ''0'') (toString mins))"

text \<open>
  The clock. \<open>new Date()\<close> reads the system clock (milliseconds since the epoch);
  \<open>getHours\<close> and \<open>getMinutes\<close> read a date in the local time zone of the machine
  the code runs on, whose offset from UTC at an instant is \<open>localTZA\<close>. A date is
  its time value.
\<close>

record host =
  now_ms :: int
  localTZA :: "int \<Rightarrow> int"

definition getCurrentMoroccoTime :: "host \<Rightarrow> int" where
  "getCurrentMoroccoTime h = now_ms h + (1 * 60 * 60 * 1000)"

definition getHours :: "host \<Rightarrow> int \<Rightarrow> int" where
  "getHours h t = ((t + localTZA h t) div 3600000) mod 24"

definition getMinutes :: "host \<Rightarrow> int \<Rightarrow> int" where
  "getMinutes h t = ((t + localTZA h t) div 60000) mod 60"

definition formatTimeUntil :: "jsnum \<Rightarrow> jsstring" where
  "formatTimeUntil minutes =
     (if num_lt minutes (IntVal 60) then toString minutes @ lit '' min''
      else
        (let hours = floorDiv60 minutes;
             remainingMinutes = rem60 minutes
         in if remainingMinutes = IntVal 0 then toString hours @ lit ''h''
            else toString hours @ lit ''h'' @ padStart 2 (lit ''0'') (toString remainingMinutes)))"

text \<open>The four message templates; 244, 224 and 233 are the accented letters.\<close>

definition msgClosingSoon :: "jsnum \<Rightarrow> jsstring" where
  "msgClosingSoon closeMinutes =
     lit ''Ferme bient'' @ [244] @ lit ''t ('' @ minutesToTime closeMinutes @ lit '')''"

definition msgOpenUntil :: "jsnum \<Rightarrow> jsstring" where
  "msgOpenUntil closeMinutes = lit ''Ouvert jusqu'' @ [39, 224, 32] @ minutesToTime closeMinutes"

definition msgOpensAt :: "jsnum \<Rightarrow> jsstring" where
  "msgOpensAt openMinutes =
     lit ''Ferm'' @ [233] @ lit '' - Ouvre '' @ [224, 32] @ minutesToTime openMinutes"

definition msgOpensTomorrow :: "jsnum \<Rightarrow> jsstring" where
  "msgOpensTomorrow openMinutes =
     lit ''Ferm'' @ [233] @ lit '' - Ouvre demain '' @ [224, 32] @ minutesToTime openMinutes"

definition isOvernight :: "jsnum \<Rightarrow> jsnum \<Rightarrow> bool" where
  "isOvernight openMinutes closeMinutes = num_lt closeMinutes openMinutes"

text \<open>
  The body of \<open>getRestaurantStatus\<close> from the classification of the interval on.
\<close>

definition statusAt :: "jsnum \<Rightarrow> jsnum \<Rightarrow> jsnum \<Rightarrow> OpeningStatus" where
  "statusAt openMinutes closeMinutes currentMinutes =
     (if isOvernight openMinutes closeMinutes then
        (if num_lt currentMinutes closeMinutes then
           (let minutesUntilClose = num_sub closeMinutes currentMinutes;
                isClosingSoon = num_le minutesUntilClose (IntVal 30)
            in \<lparr>isOpen = True,
                status = (if isClosingSoon then lit ''closing_soon'' else lit ''open''),
                message = (if isClosingSoon then msgClosingSoon closeMinutes
                           else msgOpenUntil closeMinutes),
                nextOpenTime = None,
                timeUntilClose = Some (formatTimeUntil minutesUntilClose)\<rparr>)
         else if num_ge currentMinutes openMinutes then
           (let minutesUntilMidnight = num_sub (IntVal (24 * 60)) currentMinutes;
                minutesUntilClose = num_add minutesUntilMidnight closeMinutes;
                isClosingSoon = num_le minutesUntilClose (IntVal 30)
            in \<lparr>isOpen = True,
                status = (if isClosingSoon then lit ''closing_soon'' else lit ''open''),
                message = (if isClosingSoon then msgClosingSoon closeMinutes
                           else msgOpenUntil closeMinutes),
                nextOpenTime = None,
                timeUntilClose = Some (formatTimeUntil minutesUntilClose)\<rparr>)
         else
           \<lparr>isOpen = False,
            status = lit ''closed'',
            message = msgOpensAt openMinutes,
            nextOpenTime = Some (minutesToTime openMinutes),
            timeUntilClose = None\<rparr>)
      else
        (if num_ge currentMinutes openMinutes \<and> num_lt currentMinutes closeMinutes then
           (let minutesUntilClose = num_sub closeMinutes currentMinutes;
                isClosingSoon = num_le minutesUntilClose (IntVal 30)
            in \<lparr>isOpen = True,
                status = (if isClosingSoon then lit ''closing_soon'' else lit ''open''),
                message = (if isClosingSoon then msgClosingSoon closeMinutes
                           else msgOpenUntil closeMinutes),
                nextOpenTime = None,
                timeUntilClose = Some (formatTimeUntil minutesUntilClose)\<rparr>)
         else
           \<lparr>isOpen = False,
            status = lit ''closed'',
            message = (if num_lt currentMinutes openMinutes then msgOpensAt openMinutes
                       else msgOpensTomorrow openMinutes),
            nextOpenTime = Some (minutesToTime openMinutes),
            timeUntilClose = None\<rparr>))"

definition currentMinutes :: "host \<Rightarrow> int" where
  "currentMinutes h =
     (let now = getCurrentMoroccoTime h in getHours h now * 60 + getMinutes h now)"

text \<open>
  \<open>getRestaurantStatus\<close>. It takes the hours string only and reads the clock itself.
  \<open>timeToMinutes\<close> begins with \<open>timeString.split\<close>, which raises a TypeError when
  its argument is \<open>undefined\<close>, and nothing catches it. On a string
  \<open>timeToMinutes\<close> neither raises nor has an effect, so a call with \<open>undefined\<close>
  decides the outcome whatever the other call computes.
\<close>

definition getRestaurantStatus :: "jsstring \<Rightarrow> host \<Rightarrow> (error + OpeningStatus) option" where
  "getRestaurantStatus hoursString h =
     (let hours = parseRestaurantHours hoursString
      in case open hours of
           None \<Rightarrow> Some (Inl TypeError)
         | Some opening \<Rightarrow>
             (case close hours of
                None \<Rightarrow> Some (Inl TypeError)
              | Some closing \<Rightarrow>
                  Option.bind (timeToMinutes opening) (\<lambda>openMinutes.
                  Option.bind (timeToMinutes closing) (\<lambda>closeMinutes.
                    Some (Inr (statusAt openMinutes closeMinutes (IntVal (currentMinutes h))))))))"

definition getStatusColor :: "jsstring \<Rightarrow> jsstring" where
  "getStatusColor st =
     (if st = lit ''open'' then lit ''text-green-400''
      else if st = lit ''closing_soon'' then lit ''text-yellow-400''
      else if st = lit ''closed'' then lit ''text-red-400''
      else lit ''text-gray-400'')"

text \<open>The two glyphs are U+1F7E2 and U+1F534, each a surrogate pair.\<close>

definition getStatusIcon :: "bool \<Rightarrow> jsstring" where
  "getStatusIcon is_open = (if is_open then [55357, 57314] else [55357, 56628])"

text \<open>A host whose local time zone is UTC, with the system clock at \<open>t\<close>.\<close>

definition utcHost :: "int \<Rightarrow> host" where
  "utcHost t = \<lparr>now_ms = t, localTZA = (\<lambda>_. 0)\<rparr>"



section \<open>Decimal digits\<close>

lemma natToString_digit: "n < 10 \<Longrightarrow> natToString n = [48 + n]"
  by (subst natToString.simps) simp

lemma natToString_tens:
  "10 \<le> n \<Longrightarrow> n < 100 \<Longrightarrow> natToString n = [48 + n div 10, 48 + n mod 10]"
  by (subst natToString.simps) (simp add: natToString_digit)

lemma natToString_step: "10 \<le> n \<Longrightarrow> natToString n = natToString (n div 10) @ [48 + n mod 10]"
  by (subst natToString.simps) simp

lemma digitsValue_snoc: "digitsValue (ds @ [c]) = digitsValue ds * 10 + (c - 48)"
  by (simp add: digitsValue_def)

text \<open>The digits written by \<open>natToString\<close> are those of the number.\<close>

lemma digitsValue_natToString: "digitsValue (natToString n) = n"
proof (induction n rule: natToString.induct)
  case (1 n)
  show ?case
  proof (cases "n < 10")
    case True
    then show ?thesis by (simp add: natToString_digit digitsValue_def)
  next
    case False
    with 1 have "digitsValue (natToString (n div 10)) = n div 10" by simp
    with False show ?thesis by (simp add: natToString_step digitsValue_snoc)
  qed
qed

lemma pad2_natToString:
  "n < 100 \<Longrightarrow> padStart 2 (lit ''0'') (natToString n) = [48 + n div 10, 48 + n mod 10]"
proof (cases "n < 10")
  case True
  then show ?thesis by (simp add: padStart_def lit_def natToString_digit)
next
  case False
  assume "n < 100"
  with False show ?thesis by (simp add: padStart_def natToString_tens)
qed

lemma digit_not_space: "d < 10 \<Longrightarrow> \<not> isWhiteSpace (48 + d)"
  by (simp add: isWhiteSpace_def)

lemma Number_two_digits:
  assumes "a < 10" "b < 10"
  shows "Number [48 + a, 48 + b] = Some (IntVal (int (a * 10 + b)))"
proof -
  have t: "trim [48 + a, 48 + b] = [48 + a, 48 + b]"
    using assms by (simp add: trim_def digit_not_space)
  have d: "isDigits [48 + a, 48 + b]"
    using assms by (simp add: isDigits_def isDigit_def)
  have v: "digitsValue [48 + a, 48 + b] = a * 10 + b"
    by (simp add: digitsValue_def)
  have e: "exact (int (a * 10 + b)) = Some (IntVal (int (a * 10 + b)))"
    using assms by (simp add: exact_def)
  show ?thesis
    unfolding Number_def t using d v e by (simp add: Let_def)
qed

lemma split_colon_time:
  assumes "a < 10" "b < 10" "c < 10" "d < 10"
  shows "split (lit '':'') [48 + a, 48 + b, 58, 48 + c, 48 + d] =
           [[48 + a, 48 + b], [48 + c, 48 + d]]"
  using assms by (simp add: split_def lit_def)

lemma minutesToTime_digits:
  assumes "0 \<le> m" "m < 6000"
  shows "minutesToTime (IntVal m) =
           [48 + nat (m div 60) div 10, 48 + nat (m div 60) mod 10, 58,
            48 + nat (m mod 60) div 10, 48 + nat (m mod 60) mod 10]"
proof -
  have h: "nat (m div 60) < 100" using assms by simp
  have r: "nat (m mod 60) < 100" by simp
  have s: "sgn m * (\<bar>m\<bar> mod 60) = m mod 60" using assms by (cases "m = 0") simp_all
  have hs: "toString (IntVal (m div 60)) = natToString (nat (m div 60))"
    using assms by (simp add: pos_imp_zdiv_nonneg_iff)
  have rs: "toString (IntVal (m mod 60)) = natToString (nat (m mod 60))"
    by simp
  show ?thesis
    unfolding minutesToTime_def Let_def floorDiv60.simps rem60.simps s hs rs
      pad2_natToString[OF h] pad2_natToString[OF r]
    by (simp add: lit_def)
qed

lemma timeToMinutes_digits:
  assumes "a < 10" "b < 10" "c < 10" "d < 10"
  shows "timeToMinutes [48 + a, 48 + b, 58, 48 + c, 48 + d] =
           Some (IntVal (int (a * 10 + b) * 60 + int (c * 10 + d)))"
  unfolding timeToMinutes_def split_colon_time[OF assms]
  using assms by (simp add: Number_two_digits exact_def)

section \<open>The time codec\<close>

text \<open>
  C4. For every integer \<open>m\<close> from 0 to 1439, writing \<open>m\<close> as a time string with
  \<open>minutesToTime\<close> and reading it back with \<open>timeToMinutes\<close> gives \<open>m\<close> again.
\<close>

theorem timeToMinutes_minutesToTime:
  assumes "0 \<le> m" "m < 1440"
  shows "timeToMinutes (minutesToTime (IntVal m)) = Some (IntVal m)"
proof -
  let ?h = "nat (m div 60)" and ?r = "nat (m mod 60)"
  have m6: "m < 6000" using assms by simp
  have hb: "?h div 10 < 10" "?h mod 10 < 10" using assms by simp_all
  have rb: "?r div 10 < 10" "?r mod 10 < 10" by simp_all
  have "timeToMinutes (minutesToTime (IntVal m)) =
          Some (IntVal (int (?h div 10 * 10 + ?h mod 10) * 60 + int (?r div 10 * 10 + ?r mod 10)))"
    unfolding minutesToTime_digits[OF assms(1) m6]
    by (rule timeToMinutes_digits[OF hb rb])
  also have "int (?h div 10 * 10 + ?h mod 10) * 60 + int (?r div 10 * 10 + ?r mod 10) = m"
  proof -
    have "?h div 10 * 10 + ?h mod 10 = ?h" by simp
    moreover have "?r div 10 * 10 + ?r mod 10 = ?r" by simp
    moreover have "int ?h = m div 60" using assms by (simp add: pos_imp_zdiv_nonneg_iff)
    moreover have "int ?r = m mod 60" by simp
    ultimately show ?thesis by simp
  qed
  finally show ?thesis .
qed

theorem timeToMinutes_minutesToTime_witness:
  "(0::int) \<le> 1439 \<and> (1439::int) < 1440 \<and>
   timeToMinutes (minutesToTime (IntVal 1439)) = Some (IntVal 1439)"
  using timeToMinutes_minutesToTime [of 1439] by simp

section \<open>Exactness of the arithmetic\<close>

text \<open>
  A time that \<open>timeToMinutes\<close> returns is within the range where doubles hold
  integers exactly, and so are the minutes until close that the evaluator computes
  from such times and a minute of the day.
\<close>

lemma checked_in_range: "checked x = Some (IntVal v) \<Longrightarrow> \<bar>v\<bar> \<le> 2 ^ 53"
  by (cases x) (auto simp add: exact_def split: if_splits)

lemma timeToMinutes_in_range:
  assumes "timeToMinutes s = Some (IntVal v)"
  shows "\<bar>v\<bar> \<le> 2 ^ 53"
  using assms
  by (auto simp add: timeToMinutes_def Let_def split: Option.bind_splits dest: checked_in_range)

lemma minutesUntilClose_in_range:
  fixes openM closeM n :: int
  assumes "\<bar>closeM\<bar> \<le> 2 ^ 53" "0 \<le> n" "n < 1440"
  shows "n < closeM \<Longrightarrow> \<bar>closeM - n\<bar> \<le> 2 ^ 53"
    and "closeM < openM \<Longrightarrow> openM \<le> n \<Longrightarrow> \<bar>(1440 - n) + closeM\<bar> \<le> 2 ^ 53"
  using assms by simp_all

section \<open>The evaluator\<close>

lemma lit_distinct [simp]:
  "lit ''closing_soon'' \<noteq> lit ''open''" "lit ''open'' \<noteq> lit ''closing_soon''"
  "lit ''closed'' \<noteq> lit ''open''" "lit ''open'' \<noteq> lit ''closed''"
  "lit ''closed'' \<noteq> lit ''closing_soon''" "lit ''closing_soon'' \<noteq> lit ''closed''"
  by (simp_all add: lit_def)

lemma getRestaurantStatus_parsed:
  assumes "open (parseRestaurantHours s) = Some op" "close (parseRestaurantHours s) = Some cl"
    "timeToMinutes op = Some a" "timeToMinutes cl = Some b"
  shows "getRestaurantStatus s h = Some (Inr (statusAt a b (IntVal (currentMinutes h))))"
  using assms by (simp add: getRestaurantStatus_def Let_def)

lemma statusAt_same_day_open:
  assumes "openM \<le> closeM" "openM \<le> n" "n < closeM"
  shows "statusAt (IntVal openM) (IntVal closeM) (IntVal n) =
    \<lparr>isOpen = True,
     status = (if closeM - n \<le> 30 then lit ''closing_soon'' else lit ''open''),
     message = (if closeM - n \<le> 30 then msgClosingSoon (IntVal closeM) else msgOpenUntil (IntVal closeM)),
     nextOpenTime = None,
     timeUntilClose = Some (formatTimeUntil (IntVal (closeM - n)))\<rparr>"
  using assms by (simp add: statusAt_def isOvernight_def Let_def)

lemma statusAt_same_day_closed:
  assumes "\<not> num_lt b a" "\<not> (num_ge c a \<and> num_lt c b)"
  shows "statusAt a b c =
    \<lparr>isOpen = False,
     status = lit ''closed'',
     message = (if num_lt c a then msgOpensAt a else msgOpensTomorrow a),
     nextOpenTime = Some (minutesToTime a),
     timeUntilClose = None\<rparr>"
  using assms by (simp add: statusAt_def isOvernight_def Let_def)



lemma statusAt_overnight_closed:
  assumes "closeM < openM" "closeM \<le> n" "n < openM"
  shows "statusAt (IntVal openM) (IntVal closeM) (IntVal n) =
    \<lparr>isOpen = False,
     status = lit ''closed'',
     message = msgOpensAt (IntVal openM),
     nextOpenTime = Some (minutesToTime (IntVal openM)),
     timeUntilClose = None\<rparr>"
  using assms by (simp add: statusAt_def isOvernight_def Let_def)

lemma statusAt_coupled:
  "(isOpen (statusAt a b c) \<longleftrightarrow> status (statusAt a b c) = lit ''open'' \<or> status (statusAt a b c) = lit ''closing_soon'') \<and>
   (isOpen (statusAt a b c) \<longleftrightarrow> timeUntilClose (statusAt a b c) \<noteq> None) \<and>
   (isOpen (statusAt a b c) \<longleftrightarrow> nextOpenTime (statusAt a b c) = None) \<and>
   (\<not> isOpen (statusAt a b c) \<longleftrightarrow> status (statusAt a b c) = lit ''closed'')"
  by (simp add: statusAt_def Let_def)

lemma currentMinutes_range: "0 \<le> currentMinutes h \<and> currentMinutes h < 1440"
proof -
  let ?t = "getCurrentMoroccoTime h"
  have "0 \<le> getHours h ?t" "getHours h ?t < 24" "0 \<le> getMinutes h ?t" "getMinutes h ?t < 60"
    by (simp_all add: getHours_def getMinutes_def)
  then show ?thesis by (simp add: currentMinutes_def Let_def)
qed

lemma currentMinutes_utcHost:
  "currentMinutes (utcHost t) = ((t + 3600000) div 3600000) mod 24 * 60 + ((t + 3600000) div 60000) mod 60"
  by (simp add: currentMinutes_def utcHost_def getHours_def getMinutes_def getCurrentMoroccoTime_def Let_def)

lemma currentMinutes_onto:
  assumes "0 \<le> n" "n < 1440"
  shows "currentMinutes (utcHost (n * 60000 - 3600000)) = n"
proof -
  have a: "n * 60000 div 3600000 = n div 60"
  proof -
    have "n * 60000 div 3600000 = n * 60000 div (60000 * 60)" by simp
    also have "\<dots> = n div 60" by (simp only: mult.commute[of n 60000] zdiv_zmult2_eq)
    finally show ?thesis .
  qed
  have b: "n div 60 mod 24 = n div 60" using assms by simp
  show ?thesis
    unfolding currentMinutes_utcHost using a b by simp
qed

lemmas eval_parse = parseRestaurantHours_def lit_def split_def trim_def isWhiteSpace_def Let_def
lemmas eval_time = timeToMinutes_def lit_def split_def Number_def trim_def isWhiteSpace_def
  isDigits_def isDigit_def digitsValue_def exact_def isUnsignedDecimalLiteral_def
  isNonDecimalLiteral_def isExponentPart_def Let_def
lemmas eval_format = formatTimeUntil_def minutesToTime_def padStart_def lit_def
  natToString_digit natToString_tens Let_def

text \<open>
  C1. Same-day interval: when both times of the hours string convert to integers
  \<open>openM \<le> closeM\<close>, the evaluator returns a result that is open exactly when
  \<open>openM \<le> nowM < closeM\<close>, where \<open>nowM\<close> is the minute of the day it reads from the
  clock. When open, the time until close is the rendering of \<open>closeM - nowM\<close> minutes
  and the status is \<open>closing_soon\<close> if that is at most 30 and \<open>open\<close> otherwise.
  The witness is the hours string \<open>09:00 - 18:00\<close> at 17:45: \<open>closing_soon\<close>, with
  \<open>15 min\<close> until close.
\<close>

theorem same_day_interval:
  assumes "open (parseRestaurantHours s) = Some op"
    and "close (parseRestaurantHours s) = Some cl"
    and "timeToMinutes op = Some (IntVal openM)"
    and "timeToMinutes cl = Some (IntVal closeM)"
    and "openM \<le> closeM"
  shows "\<exists>r. getRestaurantStatus s h = Some (Inr r) \<and>
           (isOpen r \<longleftrightarrow> openM \<le> currentMinutes h \<and> currentMinutes h < closeM) \<and>
           (isOpen r \<longrightarrow>
              timeUntilClose r = Some (formatTimeUntil (IntVal (closeM - currentMinutes h))) \<and>
              status r = (if closeM - currentMinutes h \<le> 30 then lit ''closing_soon''
                          else lit ''open''))"
proof -
  let ?n = "currentMinutes h"
  let ?r = "statusAt (IntVal openM) (IntVal closeM) (IntVal ?n)"
  have run: "getRestaurantStatus s h = Some (Inr ?r)"
    using assms(1-4) by (rule getRestaurantStatus_parsed)
  show ?thesis
  proof (cases "openM \<le> ?n \<and> ?n < closeM")
    case True
    then have "?r = \<lparr>isOpen = True,
       status = (if closeM - ?n \<le> 30 then lit ''closing_soon'' else lit ''open''),
       message = (if closeM - ?n \<le> 30 then msgClosingSoon (IntVal closeM)
                  else msgOpenUntil (IntVal closeM)),
       nextOpenTime = None,
       timeUntilClose = Some (formatTimeUntil (IntVal (closeM - ?n)))\<rparr>"
      using assms(5) by (simp add: statusAt_same_day_open)
    with run True show ?thesis by simp
  next
    case False
    then have "\<not> isOpen ?r"
      using assms(5) by (simp add: statusAt_same_day_closed)
    with run False show ?thesis by simp
  qed
qed

theorem same_day_interval_witness:
  "open (parseRestaurantHours (lit ''09:00 - 18:00'')) = Some (lit ''09:00'') \<and>
   close (parseRestaurantHours (lit ''09:00 - 18:00'')) = Some (lit ''18:00'') \<and>
   timeToMinutes (lit ''09:00'') = Some (IntVal 540) \<and>
   timeToMinutes (lit ''18:00'') = Some (IntVal 1080) \<and>
   currentMinutes (utcHost 60300000) = 17 * 60 + 45 \<and>
   (\<exists>r. getRestaurantStatus (lit ''09:00 - 18:00'') (utcHost 60300000) = Some (Inr r) \<and>
        isOpen r \<and> status r = lit ''closing_soon'' \<and> timeUntilClose r = Some (lit ''15 min''))"
proof -
  have p1: "open (parseRestaurantHours (lit ''09:00 - 18:00'')) = Some (lit ''09:00'')"
    and p2: "close (parseRestaurantHours (lit ''09:00 - 18:00'')) = Some (lit ''18:00'')"
    by (simp_all add: eval_parse)
  have t1: "timeToMinutes (lit ''09:00'') = Some (IntVal 540)"
    and t2: "timeToMinutes (lit ''18:00'') = Some (IntVal 1080)"
    by (simp_all add: eval_time)
  have n: "currentMinutes (utcHost 60300000) = 1065"
    by (simp add: currentMinutes_utcHost)
  have f: "formatTimeUntil (IntVal 15) = lit ''15 min''"
    by (simp add: eval_format)
  from same_day_interval [OF p1 p2 t1 t2, of "utcHost 60300000"] n f
  have "\<exists>r. getRestaurantStatus (lit ''09:00 - 18:00'') (utcHost 60300000) = Some (Inr r) \<and>
        isOpen r \<and> status r = lit ''closing_soon'' \<and> timeUntilClose r = Some (lit ''15 min'')"
    by auto
  with p1 p2 t1 t2 n show ?thesis by simp
qed


lemma parse_1200_0015:
  "open (parseRestaurantHours (lit ''12:00 - 00:15'')) = Some (lit ''12:00'')"
  "close (parseRestaurantHours (lit ''12:00 - 00:15'')) = Some (lit ''00:15'')"
  by (simp_all add: eval_parse)

lemma time_1200_0015:
  "timeToMinutes (lit ''12:00'') = Some (IntVal 720)"
  "timeToMinutes (lit ''00:15'') = Some (IntVal 15)"
  by (simp_all add: eval_time)


text \<open>
  C6. When the opening and the closing time convert to the same integer, the interval
  is not overnight and the evaluator returns a closed result whatever the clock says:
  for every host, and in the body of the evaluator for every current minute, so for
  every minute of the day from 0 to 1439.
\<close>

theorem equal_times_always_closed:
  assumes "open (parseRestaurantHours s) = Some op"
    and "close (parseRestaurantHours s) = Some cl"
    and "timeToMinutes op = Some (IntVal m)"
    and "timeToMinutes cl = Some (IntVal m)"
  shows "\<not> isOvernight (IntVal m) (IntVal m) \<and>
         (\<exists>r. getRestaurantStatus s h = Some (Inr r) \<and> \<not> isOpen r \<and> status r = lit ''closed'') \<and>
         (\<forall>nowM. \<not> isOpen (statusAt (IntVal m) (IntVal m) (IntVal nowM)) \<and>
                 status (statusAt (IntVal m) (IntVal m) (IntVal nowM)) = lit ''closed'')"
proof -
  have same: "\<not> isOvernight (IntVal m) (IntVal m)"
    by (simp add: isOvernight_def)
  have closed: "\<not> isOpen (statusAt (IntVal m) (IntVal m) (IntVal n)) \<and>
      status (statusAt (IntVal m) (IntVal m) (IntVal n)) = lit ''closed''" for n
    by (simp add: statusAt_same_day_closed)
  have "getRestaurantStatus s h =
          Some (Inr (statusAt (IntVal m) (IntVal m) (IntVal (currentMinutes h))))"
    using assms by (rule getRestaurantStatus_parsed)
  with same closed show ?thesis by simp
qed

lemma parse_0900_0900:
  "open (parseRestaurantHours (lit ''09:00 - 09:00'')) = Some (lit ''09:00'')"
  "close (parseRestaurantHours (lit ''09:00 - 09:00'')) = Some (lit ''09:00'')"
  by (simp_all add: eval_parse)

lemma time_0900: "timeToMinutes (lit ''09:00'') = Some (IntVal 540)"
  by (simp add: eval_time)

theorem equal_times_always_closed_witness:
  "open (parseRestaurantHours (lit ''09:00 - 09:00'')) = Some (lit ''09:00'') \<and>
   close (parseRestaurantHours (lit ''09:00 - 09:00'')) = Some (lit ''09:00'') \<and>
   timeToMinutes (lit ''09:00'') = Some (IntVal 540) \<and>
   currentMinutes (utcHost 28800000) = 9 * 60 \<and>
   (\<exists>r. getRestaurantStatus (lit ''09:00 - 09:00'') (utcHost 28800000) = Some (Inr r) \<and>
        \<not> isOpen r \<and> status r = lit ''closed'')"
  using equal_times_always_closed [OF parse_0900_0900 time_0900 time_0900, of "utcHost 28800000"]
    parse_0900_0900 time_0900
  by (simp add: currentMinutes_utcHost)

text \<open>
  C9. Every result the evaluator returns is coupled: it is open exactly when the
  status is \<open>open\<close> or \<open>closing_soon\<close>, exactly when the time until close is present
  and exactly when the next open time is absent; it is not open exactly when the
  status is \<open>closed\<close>, exactly when the next open time is present and exactly when
  the time until close is absent.
\<close>

theorem result_coupling:
  assumes "getRestaurantStatus s h = Some (Inr r)"
  shows "(isOpen r \<longleftrightarrow> status r = lit ''open'' \<or> status r = lit ''closing_soon'') \<and>
         (isOpen r \<longleftrightarrow> timeUntilClose r \<noteq> None) \<and>
         (isOpen r \<longleftrightarrow> nextOpenTime r = None) \<and>
         (\<not> isOpen r \<longleftrightarrow> status r = lit ''closed'') \<and>
         (\<not> isOpen r \<longleftrightarrow> nextOpenTime r \<noteq> None) \<and>
         (\<not> isOpen r \<longleftrightarrow> timeUntilClose r = None)"
proof -
  from assms obtain a b where r: "r = statusAt a b (IntVal (currentMinutes h))"
    by (auto simp add: getRestaurantStatus_def Let_def split: option.splits Option.bind_splits)
  show ?thesis
    unfolding r using statusAt_coupled [of a b "IntVal (currentMinutes h)"] by auto
qed

theorem result_coupling_witness:
  "getRestaurantStatus (lit ''12:00 - 00:15'') (utcHost 25200000) =
     Some (Inr (statusAt (IntVal 720) (IntVal 15) (IntVal 480))) \<and>
   \<not> isOpen (statusAt (IntVal 720) (IntVal 15) (IntVal 480)) \<and>
   status (statusAt (IntVal 720) (IntVal 15) (IntVal 480)) = lit ''closed'' \<and>
   nextOpenTime (statusAt (IntVal 720) (IntVal 15) (IntVal 480)) \<noteq> None \<and>
   timeUntilClose (statusAt (IntVal 720) (IntVal 15) (IntVal 480)) = None"
proof -
  have n: "currentMinutes (utcHost 25200000) = 480"
    by (simp add: currentMinutes_utcHost)
  have run: "getRestaurantStatus (lit ''12:00 - 00:15'') (utcHost 25200000) =
      Some (Inr (statusAt (IntVal 720) (IntVal 15) (IntVal 480)))"
    using getRestaurantStatus_parsed [OF parse_1200_0015 time_1200_0015, of "utcHost 25200000"] n
    by simp
  have "\<not> isOpen (statusAt (IntVal 720) (IntVal 15) (IntVal 480))"
    by (simp add: statusAt_overnight_closed)
  with result_coupling [OF run] run show ?thesis by simp
qed

section \<open>The clock read\<close>










section \<open>Durations and presentation\<close>

lemma toString_nonneg: "0 \<le> a \<Longrightarrow> toString (IntVal a) = natToString (nat a)"
  by simp

text \<open>
  C5. For every minute count \<open>n \<ge> 0\<close> the formatter returns the decimal digits of
  \<open>n\<close> followed by \<open>min\<close> when \<open>n < 60\<close>; otherwise the digits of the hours
  \<open>n div 60\<close> followed by \<open>h\<close>, and then, unless \<open>n mod 60\<close> is zero, the
  remainder as two digits. So 45 gives \<open>45 min\<close>, 90 gives \<open>1h30\<close> and 120 gives
  \<open>2h\<close>.
\<close>

theorem formatTimeUntil_nonneg:
  "(0 \<le> n \<longrightarrow>
      formatTimeUntil (IntVal n) =
        (if n < 60 then toString (IntVal n) @ lit '' min''
         else if n mod 60 = 0 then toString (IntVal (n div 60)) @ lit ''h''
         else toString (IntVal (n div 60)) @ lit ''h'' @
              [48 + nat (n mod 60) div 10, 48 + nat (n mod 60) mod 10])) \<and>
   formatTimeUntil (IntVal 45) = lit ''45 min'' \<and>
   formatTimeUntil (IntVal 90) = lit ''1h30'' \<and>
   formatTimeUntil (IntVal 120) = lit ''2h''"
proof (intro conjI impI)
  assume n: "0 \<le> n"
  have s: "sgn n * (\<bar>n\<bar> mod 60) = n mod 60"
    using n by (cases "n = 0") simp_all
  have r: "nat (n mod 60) < 100" by simp
  have p: "padStart 2 (lit ''0'') (toString (IntVal (n mod 60))) =
             [48 + nat (n mod 60) div 10, 48 + nat (n mod 60) mod 10]"
  proof -
    have "toString (IntVal (n mod 60)) = natToString (nat (n mod 60))"
      by (rule toString_nonneg) simp
    then show ?thesis using pad2_natToString [OF r] by simp
  qed
  show "formatTimeUntil (IntVal n) =
        (if n < 60 then toString (IntVal n) @ lit '' min''
         else if n mod 60 = 0 then toString (IntVal (n div 60)) @ lit ''h''
         else toString (IntVal (n div 60)) @ lit ''h'' @
              [48 + nat (n mod 60) div 10, 48 + nat (n mod 60) mod 10])"
    unfolding formatTimeUntil_def Let_def rem60.simps floorDiv60.simps s p
    by simp
qed (simp_all add: eval_format)

theorem formatTimeUntil_nonneg_witness:
  "(0::int) \<le> 605 \<and> formatTimeUntil (IntVal 605) = lit ''10h05''"
proof -
  have "formatTimeUntil (IntVal 605) = toString (IntVal 10) @ lit ''h'' @ [48, 53]"
    using formatTimeUntil_nonneg [of 605] by simp
  then show ?thesis by (simp add: lit_def natToString_tens)
qed

text \<open>
  C10. The colour of \<open>open\<close> is the green token, of \<open>closing_soon\<close> the yellow
  token, of \<open>closed\<close> the red token and of any other status the gray token; the
  glyph of an open restaurant is the green circle and of a closed one the red circle.
  Both helpers are functions of their argument alone.
\<close>

theorem presentation_helpers:
  "getStatusColor (lit ''open'') = lit ''text-green-400'' \<and>
   getStatusColor (lit ''closing_soon'') = lit ''text-yellow-400'' \<and>
   getStatusColor (lit ''closed'') = lit ''text-red-400'' \<and>
   (st \<noteq> lit ''open'' \<and> st \<noteq> lit ''closing_soon'' \<and> st \<noteq> lit ''closed'' \<longrightarrow>
      getStatusColor st = lit ''text-gray-400'') \<and>
   getStatusIcon True = [55357, 57314] \<and>
   getStatusIcon False = [55357, 56628]"
  by (simp add: getStatusColor_def getStatusIcon_def)

theorem presentation_helpers_witness:
  "lit ''pending'' \<noteq> lit ''open'' \<and> lit ''pending'' \<noteq> lit ''closing_soon'' \<and>
   lit ''pending'' \<noteq> lit ''closed'' \<and> getStatusColor (lit ''pending'') = lit ''text-gray-400'' \<and>
   getStatusColor [] = lit ''text-gray-400''"
proof -
  have d: "lit ''pending'' \<noteq> lit ''open''" "lit ''pending'' \<noteq> lit ''closing_soon''"
    "lit ''pending'' \<noteq> lit ''closed''"
    by (simp_all add: lit_def)
  have e: "[] \<noteq> lit ''open''" "[] \<noteq> lit ''closing_soon''" "[] \<noteq> lit ''closed''"
    by (simp_all add: lit_def)
  from presentation_helpers [of "lit ''pending''"] presentation_helpers [of "[]"] d e
  show ?thesis by simp
qed

section \<open>Malformed hours strings\<close>

lemma splitFrom_without_separator:
  assumes "sep \<noteq> []" and "\<forall>pre post. s \<noteq> pre @ sep @ post"
  shows "splitFrom sep piece s = [rev piece @ s]"
  using assms(2)
proof (induction s arbitrary: piece)
  case Nil
  then show ?case by simp
next
  case (Cons c cs)
  have here: "take (length sep) (c # cs) \<noteq> sep"
  proof
    assume "take (length sep) (c # cs) = sep"
    then have "c # cs = [] @ sep @ drop (length sep) (c # cs)"
      by (metis append_Nil append_take_drop_id)
    with Cons.prems show False by blast
  qed
  have later: "\<forall>pre post. cs \<noteq> pre @ sep @ post"
  proof (intro allI notI)
    fix pre post
    assume "cs = pre @ sep @ post"
    then have "c # cs = (c # pre) @ sep @ post" by simp
    with Cons.prems show False by blast
  qed
  from here have "splitFrom sep piece (c # cs) = splitFrom sep (c # piece) cs"
    by simp
  also have "\<dots> = [rev (c # piece) @ cs]"
    using later by (rule Cons.IH)
  finally show ?case by simp
qed

lemma parse_without_separator:
  assumes "\<forall>pre post. s \<noteq> pre @ lit '' - '' @ post"
  shows "parseRestaurantHours s = \<lparr>open = Some (trim s), close = None\<rparr>"
proof -
  have "lit '' - '' \<noteq> []" by (simp add: lit_def)
  then have "split (lit '' - '') s = [s]"
    using assms by (simp add: split_def splitFrom_without_separator)
  then show ?thesis by (simp add: parseRestaurantHours_def)
qed

lemma statusAt_NaN:
  assumes "a = NaN \<or> b = NaN"
  shows "\<not> isOpen (statusAt a b c) \<and> status (statusAt a b c) = lit ''closed''"
proof -
  from assms have "\<not> num_lt b a" "\<not> (num_ge c a \<and> num_lt c b)"
    by (cases a; cases b; cases c; auto)+
  then show ?thesis by (simp add: statusAt_same_day_closed)
qed

text \<open>
  C3 as stated fails: no parse step raises an error. The string \<open>0900\<close>, without
  separator, parses to a record whose closing time is \<open>undefined\<close>; the token
  \<open>ab:cd\<close> converts to \<open>NaN\<close>, and the evaluator given \<open>ab:cd - 18:00\<close> returns a
  closed result whose next open time reads \<open>NaN:NaN\<close>.
\<close>

theorem no_parse_error_counterexample:
  "parseRestaurantHours (lit ''0900'') = \<lparr>open = Some (lit ''0900''), close = None\<rparr> \<and>
   parseRestaurantHours (lit ''ab:cd - 18:00'') =
     \<lparr>open = Some (lit ''ab:cd''), close = Some (lit ''18:00'')\<rparr> \<and>
   timeToMinutes (lit ''ab:cd'') = Some NaN \<and>
   getRestaurantStatus (lit ''ab:cd - 18:00'') (utcHost 0) =
     Some (Inr \<lparr>isOpen = False,
                status = lit ''closed'',
                message = lit ''Ferm'' @ [233] @ lit '' - Ouvre demain '' @ [224, 32] @ lit ''NaN:NaN'',
                nextOpenTime = Some (lit ''NaN:NaN''),
                timeUntilClose = None\<rparr>)"
proof -
  have p0: "parseRestaurantHours (lit ''0900'') = \<lparr>open = Some (lit ''0900''), close = None\<rparr>"
    by (simp add: eval_parse)
  have p: "parseRestaurantHours (lit ''ab:cd - 18:00'') =
      \<lparr>open = Some (lit ''ab:cd''), close = Some (lit ''18:00'')\<rparr>"
    by (simp add: eval_parse)
  have t1: "timeToMinutes (lit ''ab:cd'') = Some NaN"
    and t2: "timeToMinutes (lit ''18:00'') = Some (IntVal 1080)"
    by (simp_all add: eval_time)
  have m: "minutesToTime NaN = lit ''NaN:NaN''"
    by (simp add: minutesToTime_def padStart_def lit_def)
  have r: "statusAt NaN (IntVal 1080) (IntVal (currentMinutes (utcHost 0))) =
      \<lparr>isOpen = False,
       status = lit ''closed'',
       message = lit ''Ferm'' @ [233] @ lit '' - Ouvre demain '' @ [224, 32] @ lit ''NaN:NaN'',
       nextOpenTime = Some (lit ''NaN:NaN''),
       timeUntilClose = None\<rparr>"
    by (simp add: statusAt_same_day_closed msgOpensTomorrow_def m)
  have "getRestaurantStatus (lit ''ab:cd - 18:00'') (utcHost 0) =
      Some (Inr (statusAt NaN (IntVal 1080) (IntVal (currentMinutes (utcHost 0)))))"
    using p t1 t2 by (simp add: getRestaurantStatus_def)
  with p0 p t1 r show ?thesis by simp
qed

text \<open>
  C3, amended. Parsing never fails. When the separator is absent,
  \<open>parseRestaurantHours\<close> returns the whole trimmed string as the opening time and
  no closing time, and the evaluator ends in the TypeError that \<open>timeToMinutes\<close>
  raises on the missing closing time, which nothing catches. A token that is not a
  time is not rejected: when either time converts to \<open>NaN\<close> the evaluator
  returns a closed result.
\<close>

theorem malformed_hours:
  "((\<forall>pre post. s \<noteq> pre @ lit '' - '' @ post) \<longrightarrow>
      parseRestaurantHours s = \<lparr>open = Some (trim s), close = None\<rparr> \<and>
      getRestaurantStatus s h = Some (Inl TypeError)) \<and>
   (open (parseRestaurantHours s') = Some op \<and> close (parseRestaurantHours s') = Some cl \<and>
    timeToMinutes op = Some a \<and> timeToMinutes cl = Some b \<and> (a = NaN \<or> b = NaN) \<longrightarrow>
      (\<exists>r. getRestaurantStatus s' h = Some (Inr r) \<and> \<not> isOpen r \<and> status r = lit ''closed''))"
proof (intro conjI impI)
  assume "\<forall>pre post. s \<noteq> pre @ lit '' - '' @ post"
  then show p: "parseRestaurantHours s = \<lparr>open = Some (trim s), close = None\<rparr>"
    by (rule parse_without_separator)
  show "getRestaurantStatus s h = Some (Inl TypeError)"
    by (simp add: getRestaurantStatus_def p)
next
  assume a: "open (parseRestaurantHours s') = Some op \<and> close (parseRestaurantHours s') = Some cl \<and>
    timeToMinutes op = Some a \<and> timeToMinutes cl = Some b \<and> (a = NaN \<or> b = NaN)"
  then have "getRestaurantStatus s' h = Some (Inr (statusAt a b (IntVal (currentMinutes h))))"
    by (simp add: getRestaurantStatus_parsed)
  moreover from a have "\<not> isOpen (statusAt a b (IntVal (currentMinutes h))) \<and>
      status (statusAt a b (IntVal (currentMinutes h))) = lit ''closed''"
    by (simp add: statusAt_NaN)
  ultimately show "\<exists>r. getRestaurantStatus s' h = Some (Inr r) \<and> \<not> isOpen r \<and> status r = lit ''closed''"
    by simp
qed

theorem malformed_hours_witness:
  "(\<forall>pre post. lit ''0900'' \<noteq> pre @ lit '' - '' @ post) \<and>
   getRestaurantStatus (lit ''0900'') (utcHost 0) = Some (Inl TypeError) \<and>
   open (parseRestaurantHours (lit ''ab:cd - 18:00'')) = Some (lit ''ab:cd'') \<and>
   close (parseRestaurantHours (lit ''ab:cd - 18:00'')) = Some (lit ''18:00'') \<and>
   timeToMinutes (lit ''ab:cd'') = Some NaN \<and>
   timeToMinutes (lit ''18:00'') = Some (IntVal 1080) \<and>
   (\<exists>r. getRestaurantStatus (lit ''ab:cd - 18:00'') (utcHost 0) = Some (Inr r) \<and>
        \<not> isOpen r \<and> status r = lit ''closed'')"
proof -
  have ns: "\<forall>pre post. lit ''0900'' \<noteq> pre @ lit '' - '' @ post"
  proof (intro allI notI)
    fix pre post
    assume "lit ''0900'' = pre @ lit '' - '' @ post"
    then have "set (lit ''0900'') = set (pre @ lit '' - '' @ post)" by simp
    then have "32 \<in> set (lit ''0900'')" by (simp add: lit_def)
    then show False by (simp add: lit_def)
  qed
  have p: "open (parseRestaurantHours (lit ''ab:cd - 18:00'')) = Some (lit ''ab:cd'')"
    "close (parseRestaurantHours (lit ''ab:cd - 18:00'')) = Some (lit ''18:00'')"
    by (simp_all add: eval_parse)
  have t: "timeToMinutes (lit ''ab:cd'') = Some NaN"
    "timeToMinutes (lit ''18:00'') = Some (IntVal 1080)"
    by (simp_all add: eval_time)
  from malformed_hours [of "lit ''0900''" "utcHost 0" "lit ''ab:cd - 18:00''"
      "lit ''ab:cd''" "lit ''18:00''" NaN "IntVal 1080"] ns p t
  show ?thesis by simp
qed

end
